theory Spec2Isabelle
  imports Main
begin

section \<open>Objects, references and errors\<close>

text \<open>
  The extension type of \<^verbatim>\<open>atom.cpp\<close> works on \<^verbatim>\<open>PyObject*\<close> pointers. An object is
  identified by its address; a pointer is an optional address, \<open>None\<close> being the C
  \<^verbatim>\<open>NULL\<close>. (Python's own \<^verbatim>\<open>None\<close> is the object \<open>Py_None\<close> below, a real address.)
\<close>

type_synonym ref = nat

type_synonym pyptr = "ref option"

definition Py_None :: ref where
  "Py_None = 0"

text \<open>
  A C function that returns \<^verbatim>\<open>NULL\<close> or \<^verbatim>\<open>-1\<close> with the interpreter's error indicator set
  is a function into a sum; \<open>Inl\<close> carries the exception. \<open>TypeError\<close> comes from
  \<^verbatim>\<open>py_type_fail\<close>, \<open>MemoryError\<close> from a failed \<^verbatim>\<open>PyTuple_New\<close>, and \<open>Raised\<close> is any
  exception of foreign code (a handler, the generic attribute functions).
\<close>

datatype pyerr = TypeError string | MemoryError | Raised nat

section \<open>The heap and the instance\<close>

datatype hkind = Default_h | Validate_h | Post_validate_h | Post_setattr_h

text \<open>
  The heap is what every piece of code running in the interpreter can reach, foreign
  code included. \<open>slots\<close> is the content of the array \<^verbatim>\<open>self->slots\<close>, a store from index
  to pointer: the code indexes it with whatever index the class map hands out and never
  checks a bound, and the array's extent is the class map's member count. \<open>ob_refcnt\<close>
  is the reference count of every object (\<^verbatim>\<open>Py_ssize_t\<close>, read here as an unbounded
  integer). \<open>foreign\<close> is the state foreign code keeps for itself (globals, closures),
  abstracted to a number. \<open>invoked\<close> is an observation log no code reads: every handler
  invocation \<^verbatim>\<open>atom.cpp\<close> makes, also in an activation that foreign code starts by
  re-entering the instance, lands there (which of the four handlers, with which
  argument tuple).
\<close>

record heap =
  slots :: "nat \<Rightarrow> pyptr"
  ob_refcnt :: "ref \<Rightarrow> int"
  foreign :: nat
  invoked :: "(hkind \<times> ref list) list"

text \<open>
  A callable is identified with what calling it does: it receives the argument tuple
  and runs on the heap, so it may re-enter the instance (read, write or delete any
  slot, which may invoke handlers again) and change reference counts; it returns a new
  reference or raises.
\<close>

type_synonym handler = "ref list \<Rightarrow> heap \<Rightarrow> (pyerr + ref) \<times> heap"

text \<open>
  Modelled from the spec: \<^verbatim>\<open>member.h\<close> is not among the sources. A member descriptor
  "carries up to four optional handlers: default-producer, validator, post-validator,
  post-set-observer"; the field names are the ones \<^verbatim>\<open>atom.cpp\<close> reads, and \<open>ob_member\<close>
  is the descriptor's own address (the code passes \<^verbatim>\<open>(PyObject*)member\<close> to handlers).
\<close>

record Member =
  ob_member :: ref
  default_handler :: "handler option"
  validate_handler :: "handler option"
  post_validate_handler :: "handler option"
  post_setattr_handler :: "handler option"

text \<open>
  One activation of an entry of \<^verbatim>\<open>atom.cpp\<close> on the instance: the heap, the \<^verbatim>\<open>class_map\<close>
  pointer of the \<^verbatim>\<open>Atom\<close> struct, and the two logs of this activation alone: \<open>calls\<close>
  records the handler invocations the activation makes itself and \<open>released\<close> the
  \<^verbatim>\<open>Py_DECREF\<close>s it performs itself, in order. What foreign code causes by re-entering
  is not in these two logs; the handler invocations it causes are in \<open>invoked\<close>.
\<close>

record Atom = heap +
  class_map :: pyptr
  calls :: "(hkind \<times> ref list) list"
  released :: "ref list"

text \<open>
  What \<^verbatim>\<open>atom.cpp\<close> takes from its collaborators, none of which is among the sources,
  as parameters:
  \<^item> \<open>NullObject\<close>, the object declared by \<^verbatim>\<open>null_object.h\<close>;
  \<^item> \<open>ClassMap_MemberCount\<close> and \<open>ClassMap_LookupMember\<close> of \<^verbatim>\<open>class_map.h\<close>, applied to
    the pointer the instance holds (which is \<^verbatim>\<open>NULL\<close> after \<^verbatim>\<open>Atom_clear\<close>); the lookup
    returns the descriptor and slot index, or nothing where the C leaves
    \<^verbatim>\<open>member\<close> at 0;
  \<^item> whether the host's \<^verbatim>\<open>PyTuple_New\<close> succeeds on the current heap;
  \<^item> the host's generic attribute functions, the fallback for names outside the schema;
  \<^item> \<open>tp_dealloc\<close>, what the host runs when the reference count of an object reaches
    zero: the deallocator of its type with the finalisers it triggers, foreign code
    like a handler.
\<close>

record env =
  NullObject :: ref
  ClassMap_MemberCount :: "pyptr \<Rightarrow> nat"
  ClassMap_LookupMember :: "pyptr \<Rightarrow> ref \<Rightarrow> (Member \<times> nat) option"
  PyTuple_New :: "nat \<Rightarrow> heap \<Rightarrow> bool"
  PyObject_GenericGetAttr :: "ref \<Rightarrow> ref \<Rightarrow> heap \<Rightarrow> (pyerr + ref) \<times> heap"
  PyObject_GenericSetAttr :: "ref \<Rightarrow> ref \<Rightarrow> pyptr \<Rightarrow> heap \<Rightarrow> (pyerr + unit) \<times> heap"
  tp_dealloc :: "ref \<Rightarrow> heap \<Rightarrow> heap"

section \<open>Foreign code and reference counting\<close>

text \<open>
  Foreign code gets the heap and hands back the heap it leaves; the class map pointer
  and the logs of the running activation are out of its reach.
\<close>

definition run_foreign :: "(heap \<Rightarrow> 'r \<times> heap) \<Rightarrow> Atom \<Rightarrow> 'r \<times> Atom" where
  "run_foreign f s =
     (case f (heap.truncate s) of
        (r, hp) \<Rightarrow>
          (r, s\<lparr>slots := slots hp, ob_refcnt := ob_refcnt hp, foreign := foreign hp,
               invoked := invoked hp\<rparr>))"

text \<open>
  Foreign code that calls an entry of \<^verbatim>\<open>atom.cpp\<close> back on the instance: the entry runs
  as an activation of its own on the heap as it is then, with the instance's class map
  pointer, and hands its result and heap to the caller.
\<close>

definition reenter :: "pyptr \<Rightarrow> (Atom \<Rightarrow> 'r \<times> Atom) \<Rightarrow> heap \<Rightarrow> 'r \<times> heap" where
  "reenter cm entry hp =
     (case entry \<lparr>slots = slots hp, ob_refcnt = ob_refcnt hp, foreign = foreign hp,
                  invoked = invoked hp, class_map = cm, calls = [], released = []\<rparr> of
        (r, s) \<Rightarrow> (r, heap.truncate s))"

definition Py_INCREF :: "ref \<Rightarrow> Atom \<Rightarrow> Atom" where
  "Py_INCREF ob s = s\<lparr>ob_refcnt := (ob_refcnt s)(ob := ob_refcnt s ob + 1)\<rparr>"

text \<open>
  \<^verbatim>\<open>Py_DECREF\<close> decrements, and when the count has reached zero the host deallocates
  the object, which runs foreign code.
\<close>

definition Py_DECREF :: "env \<Rightarrow> ref \<Rightarrow> Atom \<Rightarrow> Atom" where
  "Py_DECREF env ob s =
     (let s1 = s\<lparr>ob_refcnt := (ob_refcnt s)(ob := ob_refcnt s ob - 1),
                 released := released s @ [ob]\<rparr>
      in if ob_refcnt s1 ob = 0
         then snd (run_foreign (\<lambda>hp. ((), tp_dealloc env ob hp)) s1)
         else s1)"

text \<open>
  Modelled from the spec: \<^verbatim>\<open>pythonhelpers.h\<close> is not among the sources. \<^verbatim>\<open>newref\<close> takes a
  new owned reference to its argument and returns the argument ("the slot becomes
  owner"); \<^verbatim>\<open>xnewref\<close> is the same and lets \<^verbatim>\<open>NULL\<close> through. The pointer returned is the
  argument itself, so the model returns the state only. The smart pointer
  \<^verbatim>\<open>PyObjectPtr\<close> owns the reference it holds: it releases it when it is assigned another
  pointer and when it goes out of scope, and \<^verbatim>\<open>release()\<close> hands the pointer out
  unreleased.
\<close>

definition newref :: "ref \<Rightarrow> Atom \<Rightarrow> Atom" where
  "newref ob s = Py_INCREF ob s"

definition xnewref :: "pyptr \<Rightarrow> Atom \<Rightarrow> Atom" where
  "xnewref p s = (case p of None \<Rightarrow> s | Some ob \<Rightarrow> Py_INCREF ob s)"

text \<open>
  The call of a handler is logged for the activation and for the heap, and then the
  handler runs.
\<close>

definition PyObject_Call :: "hkind \<Rightarrow> handler \<Rightarrow> ref list \<Rightarrow> Atom \<Rightarrow> (pyerr + ref) \<times> Atom" where
  "PyObject_Call k h args s =
     run_foreign (h args)
       (s\<lparr>calls := calls s @ [(k, args)], invoked := invoked s @ [(k, args)]\<rparr>)"

text \<open>
  One handler invocation as \<^verbatim>\<open>do_validate\<close> and \<^verbatim>\<open>do_default\<close> write it: allocate the
  argument tuple (on failure return 0, which releases \<open>result\<close>, the reference the
  smart pointer holds), fill it with new references, call, assign the outcome to
  \<open>result\<close> (the smart pointer drops the reference it held), and release the tuple,
  whose items are dropped last to first.
\<close>

definition call_handler ::
  "env \<Rightarrow> hkind \<Rightarrow> handler \<Rightarrow> ref list \<Rightarrow> ref \<Rightarrow> Atom \<Rightarrow> (pyerr + ref) \<times> Atom" where
  "call_handler env k h args result s =
     (if \<not> PyTuple_New env (length args) (heap.truncate s)
      then (Inl MemoryError, Py_DECREF env result s)
      else
        (case PyObject_Call k h args (fold newref args s) of
           (r, s') \<Rightarrow> (r, fold (Py_DECREF env) (rev args) (Py_DECREF env result s'))))"

section \<open>The validation pipeline\<close>

definition do_validate ::
  "env \<Rightarrow> Member \<Rightarrow> ref \<Rightarrow> ref \<Rightarrow> ref \<Rightarrow> ref \<Rightarrow> Atom \<Rightarrow> (pyerr + ref) \<times> Atom" where
  "do_validate env member atom name old val s =
     (case
        (case validate_handler member of
           None \<Rightarrow> (Inr val, newref val s)
         | Some h \<Rightarrow>
             call_handler env Validate_h h [ob_member member, atom, name, old, val] val
               (newref val s))
      of
        (Inl e, s1) \<Rightarrow> (Inl e, s1)
      | (Inr result, s1) \<Rightarrow>
          (case post_validate_handler member of
             None \<Rightarrow> (Inr result, s1)
           | Some h \<Rightarrow>
               call_handler env Post_validate_h h
                 [ob_member member, atom, name, old, result] result s1))"

definition do_default :: "env \<Rightarrow> Member \<Rightarrow> ref \<Rightarrow> ref \<Rightarrow> Atom \<Rightarrow> (pyerr + ref) \<times> Atom" where
  "do_default env member atom name s =
     (case
        (case default_handler member of
           None \<Rightarrow> (Inr Py_None, newref Py_None s)
         | Some h \<Rightarrow>
             call_handler env Default_h h [ob_member member, atom, name] Py_None
               (newref Py_None s))
      of
        (Inl e, s1) \<Rightarrow> (Inl e, s1)
      | (Inr result, s1) \<Rightarrow>
          (case do_validate env member atom name (NullObject env) result s1 of
             (r, s2) \<Rightarrow> (r, Py_DECREF env result s2)))"

text \<open>
  \<^verbatim>\<open>do_post_setattr\<close> returns the C \<^verbatim>\<open>int\<close> and the error indicator it leaves: 0 without a
  handler or when the handler returns, -1 when the handler raises, and 0 with the
  allocation error pending when the argument tuple cannot be allocated. No function of
  \<^verbatim>\<open>atom.cpp\<close> calls it.
\<close>

definition do_post_setattr ::
  "env \<Rightarrow> Member \<Rightarrow> ref \<Rightarrow> ref \<Rightarrow> ref \<Rightarrow> ref \<Rightarrow> Atom \<Rightarrow> (int \<times> pyerr option) \<times> Atom" where
  "do_post_setattr env member atom name old val s =
     (case post_setattr_handler member of
        None \<Rightarrow> ((0, None), s)
      | Some h \<Rightarrow>
          if \<not> PyTuple_New env 5 (heap.truncate s) then ((0, Some MemoryError), s)
          else
            (case PyObject_Call Post_setattr_h h [ob_member member, atom, name, old, val]
                    (fold newref [ob_member member, atom, name, old, val] s) of
               (Inl e, s1) \<Rightarrow>
                 ((- 1, Some e),
                  fold (Py_DECREF env) (rev [ob_member member, atom, name, old, val]) s1)
             | (Inr r, s1) \<Rightarrow>
                 ((0, None),
                  fold (Py_DECREF env) (rev [ob_member member, atom, name, old, val])
                    (Py_DECREF env r s1))))"

section \<open>Attribute access\<close>

definition Atom_getattro :: "env \<Rightarrow> ref \<Rightarrow> ref \<Rightarrow> Atom \<Rightarrow> (pyerr + ref) \<times> Atom" where
  "Atom_getattro env self name s =
     (case ClassMap_LookupMember env (class_map s) name of
        Some (member, index) \<Rightarrow>
          (case slots s index of
             Some v \<Rightarrow> (Inr v, newref v s)
           | None \<Rightarrow>
               (case do_default env member self name s of
                  (Inl e, s1) \<Rightarrow> (Inl e, s1)
                | (Inr v, s1) \<Rightarrow> (Inr v, newref v (s1\<lparr>slots := (slots s1)(index := Some v)\<rparr>))))
      | None \<Rightarrow> run_foreign (PyObject_GenericGetAttr env self name) s)"

text \<open>
  The third argument is the value pointer; the host calls the entry with \<^verbatim>\<open>NULL\<close> to
  delete the attribute.
\<close>

definition Atom_setattro :: "env \<Rightarrow> ref \<Rightarrow> ref \<Rightarrow> pyptr \<Rightarrow> Atom \<Rightarrow> (pyerr + unit) \<times> Atom" where
  "Atom_setattro env self name v s =
     (case ClassMap_LookupMember env (class_map s) name of
        Some (member, index) \<Rightarrow>
          (Inr (), (xnewref v s)\<lparr>slots := (slots s)(index := v)\<rparr>)
      | None \<Rightarrow> run_foreign (PyObject_GenericSetAttr env self name v) s)"

section \<open>Initialization\<close>

text \<open>
  \<^verbatim>\<open>PyObject_SetAttr\<close> is the host's entry for \<^verbatim>\<open>setattr\<close>: it dispatches to the type's
  \<^verbatim>\<open>tp_setattro\<close>, which the \<^verbatim>\<open>Atom_Type\<close> table binds to \<^verbatim>\<open>Atom_setattro\<close>. The keyword
  dictionary is the list of its items in the order \<^verbatim>\<open>PyDict_Next\<close> yields them, the
  positional tuple the list of its items.
\<close>

definition PyObject_SetAttr :: "env \<Rightarrow> ref \<Rightarrow> ref \<Rightarrow> ref \<Rightarrow> Atom \<Rightarrow> (pyerr + unit) \<times> Atom" where
  "PyObject_SetAttr env self key v s = Atom_setattro env self key (Some v) s"

fun init_items :: "env \<Rightarrow> ref \<Rightarrow> (ref \<times> ref) list \<Rightarrow> Atom \<Rightarrow> (pyerr + unit) \<times> Atom" where
  "init_items env self [] s = (Inr (), s)"
| "init_items env self ((key, v) # rest) s =
     (case PyObject_SetAttr env self key v s of
        (Inl e, s1) \<Rightarrow> (Inl e, s1)
      | (Inr u, s1) \<Rightarrow> init_items env self rest s1)"

definition Atom_init ::
  "env \<Rightarrow> ref \<Rightarrow> ref list \<Rightarrow> (ref \<times> ref) list option \<Rightarrow> Atom \<Rightarrow> (pyerr + unit) \<times> Atom" where
  "Atom_init env self args kwargs s =
     (if length args > 0
      then (Inl (TypeError ''__init__() takes no positional arguments''), s)
      else
        (case kwargs of
           None \<Rightarrow> (Inr (), s)
         | Some items \<Rightarrow> init_items env self items s))"

section \<open>Garbage collector support\<close>

text \<open>
  \<^verbatim>\<open>Py_CLEAR(op)\<close>: if the pointer is not \<^verbatim>\<open>NULL\<close>, empty it first and release the object
  it held afterwards.
\<close>

definition Py_CLEAR_slot :: "env \<Rightarrow> nat \<Rightarrow> Atom \<Rightarrow> Atom" where
  "Py_CLEAR_slot env i s =
     (case slots s i of
        None \<Rightarrow> s
      | Some tmp \<Rightarrow> Py_DECREF env tmp (s\<lparr>slots := (slots s)(i := None)\<rparr>))"

definition Py_CLEAR_class_map :: "env \<Rightarrow> Atom \<Rightarrow> Atom" where
  "Py_CLEAR_class_map env s =
     (case class_map s of
        None \<Rightarrow> s
      | Some tmp \<Rightarrow> Py_DECREF env tmp (s\<lparr>class_map := None\<rparr>))"

text \<open>
  The loops run a \<^verbatim>\<open>uint32_t\<close> index from 0 up to the member count, itself a
  \<^verbatim>\<open>uint32_t\<close>: the index stays below the count and never wraps, so both are naturals.
\<close>

function clear_slots :: "env \<Rightarrow> nat \<Rightarrow> nat \<Rightarrow> Atom \<Rightarrow> Atom" where
  "clear_slots env i count s =
     (if i < count then clear_slots env (i + 1) count (Py_CLEAR_slot env i s) else s)"
  by pat_completeness auto
termination
  by (relation "measure (\<lambda>(env, i, count, s). count - i)") auto

definition Atom_clear :: "env \<Rightarrow> Atom \<Rightarrow> Atom" where
  "Atom_clear env s =
     (let count = ClassMap_MemberCount env (class_map s)
      in Py_CLEAR_class_map env (clear_slots env 0 count s))"

text \<open>
  \<^verbatim>\<open>Py_VISIT(op)\<close>: if the pointer is not \<^verbatim>\<open>NULL\<close>, call the visitor on it, and if the
  visitor answers anything but 0, return that answer from the enclosing function at
  once. The visitor is the collector's; it works on its own argument \<open>arg\<close>. The first
  component of \<open>Py_VISIT\<close>'s result is that answer, 0 to go on.
\<close>

definition Py_VISIT :: "pyptr \<Rightarrow> (ref \<Rightarrow> 'v \<Rightarrow> int \<times> 'v) \<Rightarrow> 'v \<Rightarrow> int \<times> 'v" where
  "Py_VISIT op visit arg = (case op of None \<Rightarrow> (0, arg) | Some ob \<Rightarrow> visit ob arg)"

function traverse_slots ::
  "nat \<Rightarrow> nat \<Rightarrow> Atom \<Rightarrow> (ref \<Rightarrow> 'v \<Rightarrow> int \<times> 'v) \<Rightarrow> 'v \<Rightarrow> int \<times> 'v" where
  "traverse_slots i count s visit arg =
     (if i < count
      then
        (case Py_VISIT (slots s i) visit arg of
           (vret, arg1) \<Rightarrow>
             if vret \<noteq> 0 then (vret, arg1) else traverse_slots (i + 1) count s visit arg1)
      else (0, arg))"
  by pat_completeness auto
termination
  by (relation "measure (\<lambda>(i, count, s, visit, arg). count - i)") auto

text \<open>
  The traversal returns the visitor's answer (0 when every visit answered 0), the
  visitor's argument as the visits left it, and the instance.
\<close>

definition Atom_traverse ::
  "env \<Rightarrow> Atom \<Rightarrow> (ref \<Rightarrow> 'v \<Rightarrow> int \<times> 'v) \<Rightarrow> 'v \<Rightarrow> (int \<times> 'v) \<times> Atom" where
  "Atom_traverse env s visit arg =
     (let count = ClassMap_MemberCount env (class_map s)
      in case traverse_slots 0 count s visit arg of
           (vret, arg1) \<Rightarrow>
             if vret \<noteq> 0 then ((vret, arg1), s)
             else
               (case Py_VISIT (class_map s) visit arg1 of
                  (vret, arg2) \<Rightarrow>
                    if vret \<noteq> 0 then ((vret, arg2), s) else ((0, arg2), s)))"

section \<open>The references an instance owns\<close>

text \<open>
  The values of the present slots among the first \<open>count\<close>, in index order, and the
  schema reference when the instance holds one.
\<close>

definition present_slots :: "nat \<Rightarrow> Atom \<Rightarrow> ref list" where
  "present_slots count s = List.map_filter (slots s) [0..<count]"

definition schema_ref :: "Atom \<Rightarrow> ref list" where
  "schema_ref s = (case class_map s of None \<Rightarrow> [] | Some c \<Rightarrow> [c])"

text \<open>
  Offering a list of references to a visitor the way a chain of \<^verbatim>\<open>Py_VISIT\<close>s does: in
  order, until the visitor answers something other than 0, which is then the result.
\<close>

fun visit_all :: "(ref \<Rightarrow> 'v \<Rightarrow> int \<times> 'v) \<Rightarrow> ref list \<Rightarrow> 'v \<Rightarrow> int \<times> 'v" where
  "visit_all visit [] arg = (0, arg)"
| "visit_all visit (ob # obs) arg =
     (case visit ob arg of
        (vret, arg1) \<Rightarrow> if vret \<noteq> 0 then (vret, arg1) else visit_all visit obs arg1)"

section \<open>Example instances\<close>

text \<open>
  Concrete handlers, descriptors, a schema and instances, for evaluating the model.
  \<open>ex_returns ob\<close> answers a new reference to \<open>ob\<close>, \<open>ex_raises n\<close> raises, and
  \<open>ex_stores_and_raises i ob n\<close> assigns \<open>ob\<close> to slot \<open>i\<close> of the instance it is handed
  (as a handler that runs \<^verbatim>\<open>setattr\<close> on it would) and raises.
\<close>

definition ex_returns :: "ref \<Rightarrow> handler" where
  "ex_returns ob = (\<lambda>args hp. (Inr ob, hp\<lparr>ob_refcnt := (ob_refcnt hp)(ob := ob_refcnt hp ob + 1)\<rparr>))"

definition ex_raises :: "nat \<Rightarrow> handler" where
  "ex_raises n = (\<lambda>args hp. (Inl (Raised n), hp))"

definition ex_stores_and_raises :: "nat \<Rightarrow> ref \<Rightarrow> nat \<Rightarrow> handler" where
  "ex_stores_and_raises i ob n =
     (\<lambda>args hp. (Inl (Raised n),
        hp\<lparr>slots := (slots hp)(i := Some ob),
           ob_refcnt := (ob_refcnt hp)(ob := ob_refcnt hp ob + 1)\<rparr>))"

definition ex_full :: Member where
  "ex_full = \<lparr>ob_member = 10, default_handler = Some (ex_returns 41),
     validate_handler = Some (ex_returns 42), post_validate_handler = Some (ex_returns 43),
     post_setattr_handler = Some (ex_returns 44)\<rparr>"

definition ex_plain :: Member where
  "ex_plain = \<lparr>ob_member = 11, default_handler = None, validate_handler = None,
     post_validate_handler = None, post_setattr_handler = None\<rparr>"

definition ex_failing :: Member where
  "ex_failing = \<lparr>ob_member = 12, default_handler = None,
     validate_handler = Some (ex_raises 7), post_validate_handler = None,
     post_setattr_handler = None\<rparr>"

definition ex_reentrant :: Member where
  "ex_reentrant = \<lparr>ob_member = 13, default_handler = None,
     validate_handler = Some (ex_stores_and_raises 3 5 7), post_validate_handler = None,
     post_setattr_handler = None\<rparr>"

definition ex_checked :: Member where
  "ex_checked = \<lparr>ob_member = 14, default_handler = None,
     validate_handler = Some (ex_returns 42), post_validate_handler = None,
     post_setattr_handler = None\<rparr>"

definition ex_dropping :: Member where
  "ex_dropping = \<lparr>ob_member = 16, default_handler = Some (ex_returns 8),
     validate_handler = Some (ex_raises 7), post_validate_handler = None,
     post_setattr_handler = None\<rparr>"

text \<open>
  A default handler that reads the member it is asked to compute: on its first run
  (its own state \<open>foreign\<close> is 0) it notes that it has run and reads
  \<^verbatim>\<open>atom.name\<close>, its second and third argument, through \<open>Atom_getattro\<close>; on a later run
  it answers the object 41. The read it makes is written with the schema
  \<open>ex_settled_lookup\<close>, in which the handler is already in the state of its later runs;
  \<open>ex_rereads_reenters\<close> below shows that this is the read through the schema \<open>ex_lookup\<close>
  that holds the handler itself.
\<close>

definition ex_settled :: Member where
  "ex_settled = \<lparr>ob_member = 15, default_handler = Some (ex_returns 41),
     validate_handler = None, post_validate_handler = None, post_setattr_handler = None\<rparr>"

definition ex_settled_lookup :: "pyptr \<Rightarrow> ref \<Rightarrow> (Member \<times> nat) option" where
  "ex_settled_lookup p name = (if p = Some 100 \<and> name = 25 then Some (ex_settled, 5) else None)"

definition ex_settled_env :: env where
  "ex_settled_env = \<lparr>NullObject = 1,
     ClassMap_MemberCount = (\<lambda>p. case p of None \<Rightarrow> 0 | Some c \<Rightarrow> 7),
     ClassMap_LookupMember = ex_settled_lookup,
     PyTuple_New = (\<lambda>n hp. True),
     PyObject_GenericGetAttr = (\<lambda>self name hp. (Inl (Raised 1), hp)),
     PyObject_GenericSetAttr = (\<lambda>self name v hp. (Inl (Raised 1), hp)),
     tp_dealloc = (\<lambda>ob hp. hp)\<rparr>"

definition ex_rereads :: handler where
  "ex_rereads =
     (\<lambda>args hp.
        if foreign hp = 0
        then reenter (Some 100) (Atom_getattro ex_settled_env (args ! 1) (args ! 2))
               (hp\<lparr>foreign := 1\<rparr>)
        else ex_returns 41 args hp)"

definition ex_rereading :: Member where
  "ex_rereading = \<lparr>ob_member = 15, default_handler = Some ex_rereads,
     validate_handler = None, post_validate_handler = None, post_setattr_handler = None\<rparr>"

text \<open>
  The schema is the object at 100 with seven members, named by the objects 20 to 26;
  every other name goes to the generic functions, which raise here. In \<open>ex_env\<close>
  deallocation runs nothing, and the member count read through \<^verbatim>\<open>NULL\<close> is 0.
\<close>

definition ex_lookup :: "pyptr \<Rightarrow> ref \<Rightarrow> (Member \<times> nat) option" where
  "ex_lookup p name =
     (if p \<noteq> Some 100 then None
      else if name = 20 then Some (ex_full, 0)
      else if name = 21 then Some (ex_plain, 1)
      else if name = 22 then Some (ex_failing, 2)
      else if name = 23 then Some (ex_reentrant, 3)
      else if name = 24 then Some (ex_checked, 4)
      else if name = 25 then Some (ex_rereading, 5)
      else if name = 26 then Some (ex_dropping, 6)
      else None)"

definition ex_env :: env where
  "ex_env = \<lparr>NullObject = 1,
     ClassMap_MemberCount = (\<lambda>p. case p of None \<Rightarrow> 0 | Some c \<Rightarrow> 7),
     ClassMap_LookupMember = ex_lookup,
     PyTuple_New = (\<lambda>n hp. True),
     PyObject_GenericGetAttr = (\<lambda>self name hp. (Inl (Raised 1), hp)),
     PyObject_GenericSetAttr = (\<lambda>self name v hp. (Inl (Raised 1), hp)),
     tp_dealloc = (\<lambda>ob hp. hp)\<rparr>"

text \<open>
  In \<open>ex_refill_env\<close> two objects have a finaliser that assigns the object 9 to a member
  of the instance, through \<open>Atom_setattro\<close>: the deallocation of the object 6 assigns it
  to the member named 20 (slot 0) and the deallocation of the object 8 to the member
  named 26 (slot 6). The member count is 7 through every pointer. (The schema lookup is
  that of \<open>ex_env\<close>, so the write entry is the same in both: \<open>ex_refill_setattro\<close> below.)
\<close>

definition ex_refill_env :: env where
  "ex_refill_env = ex_env\<lparr>
     ClassMap_MemberCount := (\<lambda>p. 7),
     tp_dealloc := (\<lambda>ob hp.
       if ob = 6 then snd (reenter (Some 100) (Atom_setattro ex_env 7 20 (Some 9)) hp)
       else if ob = 8 then snd (reenter (Some 100) (Atom_setattro ex_env 7 26 (Some 9)) hp)
       else hp)\<rparr>"

text \<open>
  \<open>ex_atom\<close> is an instance with every slot absent, on a heap where every object has one
  reference held elsewhere; \<open>ex_filled\<close> holds the objects 5 and 6 in its slots 0 and 1;
  in \<open>ex_fresh\<close> the object 8 does not exist yet (nothing refers to it).
\<close>

definition ex_atom :: Atom where
  "ex_atom = \<lparr>slots = (\<lambda>i. None), ob_refcnt = (\<lambda>ob. 1), foreign = 0, invoked = [],
     class_map = Some 100, calls = [], released = []\<rparr>"

definition ex_filled :: Atom where
  "ex_filled = ex_atom\<lparr>slots := (\<lambda>i. None)(0 := Some 5, 1 := Some 6)\<rparr>"

definition ex_fresh :: Atom where
  "ex_fresh = ex_atom\<lparr>ob_refcnt := (\<lambda>ob. 1)(8 := 0)\<rparr>"

lemmas ex_defs =
  ex_returns_def ex_raises_def ex_stores_and_raises_def ex_full_def ex_plain_def
  ex_failing_def ex_reentrant_def ex_checked_def ex_dropping_def ex_settled_def
  ex_settled_lookup_def ex_rereads_def ex_rereading_def ex_lookup_def ex_atom_def
  ex_filled_def ex_fresh_def

section \<open>What the primitives leave alone\<close>

lemma Py_INCREF_sel [simp]:
  "slots (Py_INCREF ob s) = slots s"
  "class_map (Py_INCREF ob s) = class_map s"
  "calls (Py_INCREF ob s) = calls s"
  "released (Py_INCREF ob s) = released s"
  "invoked (Py_INCREF ob s) = invoked s"
  "foreign (Py_INCREF ob s) = foreign s"
  "ob_refcnt (Py_INCREF ob s) = (ob_refcnt s)(ob := ob_refcnt s ob + 1)"
  by (simp_all add: Py_INCREF_def)

lemma newref_sel [simp]:
  "slots (newref ob s) = slots s"
  "class_map (newref ob s) = class_map s"
  "calls (newref ob s) = calls s"
  "released (newref ob s) = released s"
  "invoked (newref ob s) = invoked s"
  "foreign (newref ob s) = foreign s"
  "ob_refcnt (newref ob s) = (ob_refcnt s)(ob := ob_refcnt s ob + 1)"
  by (simp_all add: newref_def)

lemma xnewref_sel [simp]:
  "slots (xnewref p s) = slots s"
  "class_map (xnewref p s) = class_map s"
  "calls (xnewref p s) = calls s"
  "released (xnewref p s) = released s"
  "invoked (xnewref p s) = invoked s"
  "foreign (xnewref p s) = foreign s"
  by (simp_all add: xnewref_def split: option.split)

lemma fold_newref_sel [simp]:
  "slots (fold newref args s) = slots s"
  "class_map (fold newref args s) = class_map s"
  "calls (fold newref args s) = calls s"
  "released (fold newref args s) = released s"
  "invoked (fold newref args s) = invoked s"
  "foreign (fold newref args s) = foreign s"
  by (induction args arbitrary: s; simp)+

lemma truncate_sel [simp]:
  "slots (heap.truncate s) = slots s"
  "ob_refcnt (heap.truncate s) = ob_refcnt s"
  "invoked (heap.truncate s) = invoked s"
  "foreign (heap.truncate s) = foreign s"
  by (simp_all add: heap.truncate_def)

lemma run_foreign_sel:
  "run_foreign f s = (r, s1) \<Longrightarrow>
   class_map s1 = class_map s \<and> calls s1 = calls s \<and> released s1 = released s"
  by (auto simp: run_foreign_def split: prod.splits)

lemma run_foreign_result:
  "run_foreign f s = (r, s1) \<Longrightarrow> f (heap.truncate s) = (r, heap.truncate s1)"
  by (auto simp: run_foreign_def heap.truncate_def split: prod.splits)

lemma Py_DECREF_sel [simp]:
  "class_map (Py_DECREF env ob s) = class_map s"
  "calls (Py_DECREF env ob s) = calls s"
  "released (Py_DECREF env ob s) = released s @ [ob]"
  by (simp_all add: Py_DECREF_def Let_def run_foreign_def split: prod.splits)

lemma Py_DECREF_slot:
  "\<forall>ob hp. slots (tp_dealloc env ob hp) i = slots hp i \<Longrightarrow>
   slots (Py_DECREF env ob s) i = slots s i"
  by (simp add: Py_DECREF_def Let_def run_foreign_def split: prod.splits)

lemma Py_DECREF_invoked:
  "\<forall>ob hp. invoked (tp_dealloc env ob hp) = invoked hp \<Longrightarrow>
   invoked (Py_DECREF env ob s) = invoked s"
  by (simp add: Py_DECREF_def Let_def run_foreign_def split: prod.splits)

lemma fold_Py_DECREF_sel [simp]:
  "class_map (fold (Py_DECREF env) args s) = class_map s"
  "calls (fold (Py_DECREF env) args s) = calls s"
  "released (fold (Py_DECREF env) args s) = released s @ args"
  by (induction args arbitrary: s; simp)+

lemma fold_Py_DECREF_slot:
  "\<forall>ob hp. slots (tp_dealloc env ob hp) i = slots hp i \<Longrightarrow>
   slots (fold (Py_DECREF env) args s) i = slots s i"
  by (induction args arbitrary: s) (simp_all add: Py_DECREF_slot)

lemma fold_Py_DECREF_invoked:
  "\<forall>ob hp. invoked (tp_dealloc env ob hp) = invoked hp \<Longrightarrow>
   invoked (fold (Py_DECREF env) args s) = invoked s"
  by (induction args arbitrary: s) (simp_all add: Py_DECREF_invoked)

text \<open>Where deallocation runs nothing, a release is the decrement alone.\<close>

lemma Py_DECREF_quiet:
  "tp_dealloc env = (\<lambda>ob hp. hp) \<Longrightarrow>
   Py_DECREF env ob s =
     s\<lparr>ob_refcnt := (ob_refcnt s)(ob := ob_refcnt s ob - 1), released := released s @ [ob]\<rparr>"
  by (simp add: Py_DECREF_def Let_def run_foreign_def heap.truncate_def)

lemma Py_DECREF_quiet_sel:
  assumes "tp_dealloc env = (\<lambda>ob hp. hp)"
  shows "slots (Py_DECREF env ob s) = slots s"
    "ob_refcnt (Py_DECREF env ob s) = (ob_refcnt s)(ob := ob_refcnt s ob - 1)"
    "invoked (Py_DECREF env ob s) = invoked s"
    "foreign (Py_DECREF env ob s) = foreign s"
  by (simp_all add: Py_DECREF_quiet[OF assms])

lemma fold_Py_DECREF_quiet_sel:
  assumes "tp_dealloc env = (\<lambda>ob hp. hp)"
  shows "slots (fold (Py_DECREF env) args s) = slots s"
    "invoked (fold (Py_DECREF env) args s) = invoked s"
    "foreign (fold (Py_DECREF env) args s) = foreign s"
  by (induction args arbitrary: s; simp add: Py_DECREF_quiet_sel[OF assms])+

lemma Py_DECREF_alive:
  "ob_refcnt s ob \<noteq> 1 \<Longrightarrow>
   Py_DECREF env ob s =
     s\<lparr>ob_refcnt := (ob_refcnt s)(ob := ob_refcnt s ob - 1), released := released s @ [ob]\<rparr>"
  by (simp add: Py_DECREF_def Let_def)

lemma Py_DECREF_dead:
  "ob_refcnt s ob = 1 \<Longrightarrow>
   Py_DECREF env ob s =
     snd (run_foreign (\<lambda>hp. ((), tp_dealloc env ob hp))
            (s\<lparr>ob_refcnt := (ob_refcnt s)(ob := 0), released := released s @ [ob]\<rparr>))"
  by (simp add: Py_DECREF_def Let_def)

section \<open>What one handler call and the pipeline do\<close>

lemma PyObject_Call_sel:
  assumes "PyObject_Call k h args s = (r, s1)"
  shows "class_map s1 = class_map s" "calls s1 = calls s @ [(k, args)]" "released s1 = released s"
    "\<exists>hp. slots hp = slots s \<and> invoked hp = invoked s @ [(k, args)] \<and>
          h args hp = (r, heap.truncate s1)"
proof -
  let ?t = "s\<lparr>calls := calls s @ [(k, args)], invoked := invoked s @ [(k, args)]\<rparr>"
  from assms have rf: "run_foreign (h args) ?t = (r, s1)"
    by (simp add: PyObject_Call_def)
  from run_foreign_sel[OF rf] show "class_map s1 = class_map s"
    "calls s1 = calls s @ [(k, args)]" "released s1 = released s"
    by simp_all
  from run_foreign_result[OF rf]
  show "\<exists>hp. slots hp = slots s \<and> invoked hp = invoked s @ [(k, args)] \<and>
          h args hp = (r, heap.truncate s1)"
    by (intro exI[of _ "heap.truncate ?t"]) simp
qed

lemma call_handler_class_map:
  "call_handler env k h args result s = (r, s1) \<Longrightarrow> class_map s1 = class_map s"
  by (auto simp: call_handler_def split: if_splits prod.splits dest: PyObject_Call_sel)

lemma call_handler_calls:
  "call_handler env k h args result s = (r, s1) \<Longrightarrow>
   calls s1 = calls s @ (if PyTuple_New env (length args) (heap.truncate s) then [(k, args)] else []) \<and>
   (\<not> PyTuple_New env (length args) (heap.truncate s) \<longrightarrow> r = Inl MemoryError)"
  by (auto simp: call_handler_def split: if_splits prod.splits dest: PyObject_Call_sel)

lemma call_handler_success:
  "call_handler env k h args result s = (Inr v, s1) \<Longrightarrow>
   calls s1 = calls s @ [(k, args)] \<and> (\<exists>hp. fst (h args hp) = Inr v)"
proof -
  assume a: "call_handler env k h args result s = (Inr v, s1)"
  then obtain s2 where c: "PyObject_Call k h args (fold newref args s) = (Inr v, s2)"
    and s1: "s1 = fold (Py_DECREF env) (rev args) (Py_DECREF env result s2)"
    by (auto simp: call_handler_def split: if_splits prod.splits)
  from PyObject_Call_sel(4)[OF c] have "\<exists>hp. fst (h args hp) = Inr v"
    by (metis fst_conv)
  with PyObject_Call_sel(2)[OF c] s1 show ?thesis
    by simp
qed

lemma call_handler_frame:
  assumes "\<forall>a hp. slots (snd (h a hp)) i = slots hp i"
      and "\<forall>ob hp. slots (tp_dealloc env ob hp) i = slots hp i"
      and "call_handler env k h args result s = (r, s1)"
  shows "slots s1 i = slots s i"
proof (cases "PyTuple_New env (length args) (heap.truncate s)")
  case False
  with assms(3) have "s1 = Py_DECREF env result s"
    by (simp add: call_handler_def)
  then show ?thesis
    by (simp add: Py_DECREF_slot[OF assms(2)])
next
  case True
  with assms(3) obtain s2 where c: "PyObject_Call k h args (fold newref args s) = (r, s2)"
    and s1: "s1 = fold (Py_DECREF env) (rev args) (Py_DECREF env result s2)"
    by (auto simp: call_handler_def split: prod.splits)
  from PyObject_Call_sel(4)[OF c] obtain hp where
    "slots hp = slots s" "h args hp = (r, heap.truncate s2)"
    by auto
  with assms(1) have "slots s2 i = slots s i"
    by (metis snd_conv truncate_sel(1))
  with s1 show ?thesis
    by (simp add: fold_Py_DECREF_slot[OF assms(2)] Py_DECREF_slot[OF assms(2)])
qed

lemma call_handler_invoked:
  assumes "\<forall>a hp. invoked (snd (h a hp)) = invoked hp"
      and "\<forall>ob hp. invoked (tp_dealloc env ob hp) = invoked hp"
      and "call_handler env k h args result s = (r, s1)"
  shows "\<exists>cs. calls s1 = calls s @ cs \<and> invoked s1 = invoked s @ cs"
proof (cases "PyTuple_New env (length args) (heap.truncate s)")
  case False
  with assms(3) have "s1 = Py_DECREF env result s"
    by (simp add: call_handler_def)
  then show ?thesis
    by (simp add: Py_DECREF_invoked[OF assms(2)])
next
  case True
  with assms(3) obtain s2 where c: "PyObject_Call k h args (fold newref args s) = (r, s2)"
    and s1: "s1 = fold (Py_DECREF env) (rev args) (Py_DECREF env result s2)"
    by (auto simp: call_handler_def split: prod.splits)
  from PyObject_Call_sel(4)[OF c] obtain hp where
    "invoked hp = invoked s @ [(k, args)]" "h args hp = (r, heap.truncate s2)"
    by auto
  with assms(1) have "invoked s2 = invoked s @ [(k, args)]"
    by (metis snd_conv truncate_sel(3))
  with s1 PyObject_Call_sel(2)[OF c] show ?thesis
    by (simp add: fold_Py_DECREF_invoked[OF assms(2)] Py_DECREF_invoked[OF assms(2)])
qed

lemma do_validate_class_map:
  "do_validate env member atom name old val s = (r, s1) \<Longrightarrow> class_map s1 = class_map s"
  by (auto simp: do_validate_def split: option.splits prod.splits sum.splits dest!: call_handler_class_map)

lemma do_validate_success:
  assumes "do_validate env member atom name old val s = (Inr r, s1)"
  shows "\<exists>r1.
    (case validate_handler member of
       None \<Rightarrow> r1 = val
     | Some hv \<Rightarrow> \<exists>hp. fst (hv [ob_member member, atom, name, old, val] hp) = Inr r1) \<and>
    (case post_validate_handler member of
       None \<Rightarrow> r = r1
     | Some hpv \<Rightarrow> \<exists>hp. fst (hpv [ob_member member, atom, name, old, r1] hp) = Inr r) \<and>
    calls s1 = calls s @
      (case validate_handler member of
         None \<Rightarrow> []
       | Some hv \<Rightarrow> [(Validate_h, [ob_member member, atom, name, old, val])]) @
      (case post_validate_handler member of
         None \<Rightarrow> []
       | Some hpv \<Rightarrow> [(Post_validate_h, [ob_member member, atom, name, old, r1])])"
  using assms
  by (auto simp: do_validate_def split: option.splits prod.splits sum.splits dest!: call_handler_success)

lemma do_validate_calls:
  assumes "do_validate env member atom name old val s = (r, s1)"
  shows "\<exists>cs. calls s1 = calls s @ cs \<and>
    (\<forall>(k, args) \<in> set cs. k \<noteq> Default_h \<and> length args = 5 \<and> args ! 3 = old) \<and>
    (\<forall>(k, args) \<in> set (take 1 cs). args ! 4 = val) \<and>
    (validate_handler member = None \<and> post_validate_handler member = None \<longrightarrow> r = Inr val)"
  using assms
  by (auto simp: do_validate_def split: option.splits prod.splits sum.splits dest!: call_handler_calls)

lemma do_validate_frame:
  assumes h: "\<forall>h a hp. h \<in> set_option (validate_handler member) \<union> set_option (post_validate_handler member) \<longrightarrow> slots (snd (h a hp)) i = slots hp i"
      and d: "\<forall>ob hp. slots (tp_dealloc env ob hp) i = slots hp i"
      and "do_validate env member atom name old val s = (r, s1)"
  shows "slots s1 i = slots s i"
  using assms(3) h
  by (auto simp: do_validate_def split: option.splits prod.splits sum.splits
      dest!: call_handler_frame[OF _ d, rotated])

lemma do_validate_invoked:
  assumes h: "\<forall>h a hp. h \<in> set_option (validate_handler member) \<union> set_option (post_validate_handler member) \<longrightarrow> invoked (snd (h a hp)) = invoked hp"
      and d: "\<forall>ob hp. invoked (tp_dealloc env ob hp) = invoked hp"
      and "do_validate env member atom name old val s = (r, s1)"
  shows "\<exists>cs. calls s1 = calls s @ cs \<and> invoked s1 = invoked s @ cs"
  using assms(3) h
  by (auto simp: do_validate_def split: option.splits prod.splits sum.splits
      dest!: call_handler_invoked[OF _ d, rotated])

lemma do_default_class_map:
  "do_default env member atom name s = (r, s1) \<Longrightarrow> class_map s1 = class_map s"
  by (auto simp: do_default_def split: option.splits prod.splits sum.splits
      dest!: call_handler_class_map do_validate_class_map)

lemma do_default_success:
  assumes "do_default env member atom name s = (Inr r, s1)"
  shows "\<exists>cand r1.
    (case default_handler member of
       None \<Rightarrow> cand = Py_None
     | Some hdf \<Rightarrow> \<exists>hp. fst (hdf [ob_member member, atom, name] hp) = Inr cand) \<and>
    (case validate_handler member of
       None \<Rightarrow> r1 = cand
     | Some hv \<Rightarrow> \<exists>hp. fst (hv [ob_member member, atom, name, NullObject env, cand] hp) = Inr r1) \<and>
    (case post_validate_handler member of
       None \<Rightarrow> r = r1
     | Some hpv \<Rightarrow> \<exists>hp. fst (hpv [ob_member member, atom, name, NullObject env, r1] hp) = Inr r) \<and>
    calls s1 = calls s @
      (case default_handler member of
         None \<Rightarrow> []
       | Some hdf \<Rightarrow> [(Default_h, [ob_member member, atom, name])]) @
      (case validate_handler member of
         None \<Rightarrow> []
       | Some hv \<Rightarrow> [(Validate_h, [ob_member member, atom, name, NullObject env, cand])]) @
      (case post_validate_handler member of
         None \<Rightarrow> []
       | Some hpv \<Rightarrow> [(Post_validate_h, [ob_member member, atom, name, NullObject env, r1])])"
proof (cases "default_handler member")
  case None
  with assms obtain s2 where "do_validate env member atom name (NullObject env) Py_None (newref Py_None s) = (Inr r, s2)"
     and "s1 = Py_DECREF env Py_None s2"
    by (auto simp: do_default_def split: prod.splits)
  from do_validate_success[OF this(1)] this(2) None show ?thesis
    by auto
next
  case (Some hdf)
  with assms obtain cand s2 s3 where
    c: "call_handler env Default_h hdf [ob_member member, atom, name] Py_None (newref Py_None s) = (Inr cand, s2)"
    and v: "do_validate env member atom name (NullObject env) cand s2 = (Inr r, s3)"
    and "s1 = Py_DECREF env cand s3"
    by (auto simp: do_default_def split: prod.splits sum.splits)
  from call_handler_success[OF c] do_validate_success[OF v] this(3) Some show ?thesis
    by (auto split: option.splits)
qed

lemma do_default_frame:
  assumes h: "\<forall>h a hp. h \<in> set_option (default_handler member) \<union> set_option (validate_handler member) \<union> set_option (post_validate_handler member) \<longrightarrow> slots (snd (h a hp)) i = slots hp i"
      and d: "\<forall>ob hp. slots (tp_dealloc env ob hp) i = slots hp i"
      and "do_default env member atom name s = (r, s1)"
  shows "slots s1 i = slots s i"
proof -
  from h have v: "\<forall>h a hp. h \<in> set_option (validate_handler member) \<union> set_option (post_validate_handler member) \<longrightarrow> slots (snd (h a hp)) i = slots hp i"
    by blast
  show ?thesis
    using assms(3) h
    by (auto simp: do_default_def Py_DECREF_slot[OF d] split: option.splits prod.splits sum.splits
        dest!: call_handler_frame[OF _ d, rotated] do_validate_frame[OF v d])
qed

lemma do_default_invoked:
  assumes h: "\<forall>h a hp. h \<in> set_option (default_handler member) \<union> set_option (validate_handler member) \<union> set_option (post_validate_handler member) \<longrightarrow> invoked (snd (h a hp)) = invoked hp"
      and d: "\<forall>ob hp. invoked (tp_dealloc env ob hp) = invoked hp"
      and "do_default env member atom name s = (r, s1)"
  shows "\<exists>cs. calls s1 = calls s @ cs \<and> invoked s1 = invoked s @ cs"
proof -
  from h have v: "\<forall>h a hp. h \<in> set_option (validate_handler member) \<union> set_option (post_validate_handler member) \<longrightarrow> invoked (snd (h a hp)) = invoked hp"
    by blast
  show ?thesis
    using assms(3) h
    by (auto simp: do_default_def Py_DECREF_invoked[OF d] split: option.splits prod.splits sum.splits
        dest!: call_handler_invoked[OF _ d, rotated] do_validate_invoked[OF v d])
qed

section \<open>Reading a member\<close>

lemma Atom_getattro_present:
  assumes "ClassMap_LookupMember env (class_map t) name = Some (member, index)"
      and "slots t index = Some w"
  shows "Atom_getattro env self name t = (Inr w, newref w t)"
  using assms by (simp add: Atom_getattro_def)

lemma Atom_getattro_absent:
  assumes "ClassMap_LookupMember env (class_map s) name = Some (member, index)"
      and "slots s index = None"
  shows "Atom_getattro env self name s =
     (case do_default env member self name s of
        (Inl e, s1) \<Rightarrow> (Inl e, s1)
      | (Inr v, s1) \<Rightarrow> (Inr v, newref v (s1\<lparr>slots := (slots s1)(index := Some v)\<rparr>)))"
  using assms by (simp add: Atom_getattro_def)

section \<open>What the loops of the collector entries do\<close>

declare clear_slots.simps [simp del] traverse_slots.simps [simp del]

lemma map_filter_append:
  "List.map_filter f (xs @ ys) = List.map_filter f xs @ List.map_filter f ys"
  by (simp add: List.map_filter_def)

lemma map_filter_cong_set:
  "(\<And>x. x \<in> set xs \<Longrightarrow> f x = g x) \<Longrightarrow> List.map_filter f xs = List.map_filter g xs"
  by (induction xs) (auto simp: List.map_filter_simps split: option.splits)

lemma map_filter_all_None:
  "(\<And>x. x \<in> set xs \<Longrightarrow> f x = None) \<Longrightarrow> List.map_filter f xs = []"
  by (induction xs) (auto simp: List.map_filter_simps)

lemma map_filter_upt_step:
  assumes "i < count" and "\<And>j. i < j \<Longrightarrow> g j = f j"
  shows "List.map_filter f [i..<count] = List.map_filter f [i] @ List.map_filter g [i + 1..<count]"
proof -
  have "[i..<count] = [i] @ [i + 1..<count]"
    using assms(1) by (simp add: upt_conv_Cons)
  moreover have "List.map_filter f [i + 1..<count] = List.map_filter g [i + 1..<count]"
    by (rule map_filter_cong_set) (simp add: assms(2))
  ultimately show ?thesis
    by (simp only: map_filter_append)
qed

lemma map_filter_cleared_below:
  assumes "\<And>j. f j = (if j < c then None else g j)"
  shows "List.map_filter f [0..<n] = List.map_filter g [c..<n]"
proof (cases "c \<le> n")
  case True
  then have "[0..<n] = [0..<c] @ [c..<n]"
    by (metis le0 upt_add_eq_append le_add_diff_inverse)
  moreover have "List.map_filter f [0..<c] = []"
    by (rule map_filter_all_None) (simp add: assms)
  moreover have "List.map_filter f [c..<n] = List.map_filter g [c..<n]"
    by (rule map_filter_cong_set) (simp add: assms)
  ultimately show ?thesis
    by (simp add: map_filter_append)
next
  case False
  then have "List.map_filter f [0..<n] = []"
    by (intro map_filter_all_None) (simp add: assms)
  with False show ?thesis
    by (simp add: List.map_filter_simps)
qed

lemma Py_CLEAR_slot_sel [simp]:
  "class_map (Py_CLEAR_slot env i s) = class_map s"
  "calls (Py_CLEAR_slot env i s) = calls s"
  "released (Py_CLEAR_slot env i s) = released s @ List.map_filter (slots s) [i]"
  by (auto simp: Py_CLEAR_slot_def List.map_filter_simps split: option.splits)

lemma Py_CLEAR_slot_slots:
  assumes "\<forall>ob hp. slots (tp_dealloc env ob hp) = slots hp"
  shows "slots (Py_CLEAR_slot env i s) j = (if j = i then None else slots s j)"
proof -
  from assms have "\<forall>ob hp. slots (tp_dealloc env ob hp) j = slots hp j"
    by simp
  from Py_DECREF_slot[OF this] show ?thesis
    by (auto simp: Py_CLEAR_slot_def split: option.splits)
qed

lemma clear_slots_fold:
  "clear_slots env i count s = fold (Py_CLEAR_slot env) [i..<count] s"
proof (induction env i count s rule: clear_slots.induct)
  case (1 env i count s)
  show ?case
  proof (cases "i < count")
    case True
    with "1.IH" show ?thesis
      by (subst clear_slots.simps) (simp add: upt_conv_Cons)
  next
    case False
    then show ?thesis
      by (subst clear_slots.simps) simp
  qed
qed

lemma fold_Py_CLEAR_slot_sel [simp]:
  "class_map (fold (Py_CLEAR_slot env) is s) = class_map s"
  "calls (fold (Py_CLEAR_slot env) is s) = calls s"
  by (induction "is" arbitrary: s; simp)+

lemma clear_slots_sel [simp]:
  "class_map (clear_slots env i count s) = class_map s"
  "calls (clear_slots env i count s) = calls s"
  by (simp_all add: clear_slots_fold)

lemma clear_slots_quiet:
  assumes "\<forall>ob hp. slots (tp_dealloc env ob hp) = slots hp"
  shows "slots (clear_slots env i count s) j = (if i \<le> j \<and> j < count then None else slots s j) \<and>
         released (clear_slots env i count s) = released s @ List.map_filter (slots s) [i..<count]"
  using assms
proof (induction env i count s rule: clear_slots.induct)
  case (1 env i count s)
  note d = "1.prems"
  show ?case
  proof (cases "i < count")
    case False
    then show ?thesis
      by (subst (1 2) clear_slots.simps) (auto simp: List.map_filter_simps)
  next
    case True
    let ?s' = "Py_CLEAR_slot env i s"
    have eq: "clear_slots env i count s = clear_slots env (i + 1) count ?s'"
      using True by (subst clear_slots.simps) simp
    have sl: "slots ?s' j = (if j = i then None else slots s j)" for j
      by (rule Py_CLEAR_slot_slots[OF d])
    have step: "List.map_filter (slots s) [i..<count] =
        List.map_filter (slots s) [i] @ List.map_filter (slots ?s') [i + 1..<count]"
      using True by (intro map_filter_upt_step) (simp_all add: sl)
    from "1.IH"[OF True d] have
      ih1: "slots (clear_slots env (i + 1) count ?s') j =
          (if i + 1 \<le> j \<and> j < count then None else slots ?s' j)"
      and ih2: "released (clear_slots env (i + 1) count ?s') =
          released ?s' @ List.map_filter (slots ?s') [i + 1..<count]"
      by simp_all
    have "slots (clear_slots env i count s) j = (if i \<le> j \<and> j < count then None else slots s j)"
      unfolding eq ih1 using True by (auto simp: sl)
    moreover have "released (clear_slots env i count s) =
        released s @ List.map_filter (slots s) [i..<count]"
      unfolding eq ih2 step by simp
    ultimately show ?thesis
      by simp
  qed
qed

lemma Py_CLEAR_class_map_sel [simp]:
  "class_map (Py_CLEAR_class_map env s) = None"
  "calls (Py_CLEAR_class_map env s) = calls s"
  "released (Py_CLEAR_class_map env s) = released s @ schema_ref s"
  by (auto simp: Py_CLEAR_class_map_def schema_ref_def split: option.splits)

lemma Py_CLEAR_class_map_slots:
  assumes "\<forall>ob hp. slots (tp_dealloc env ob hp) = slots hp"
  shows "slots (Py_CLEAR_class_map env s) j = slots s j"
proof -
  from assms have "\<forall>ob hp. slots (tp_dealloc env ob hp) j = slots hp j"
    by simp
  from Py_DECREF_slot[OF this] show ?thesis
    by (auto simp: Py_CLEAR_class_map_def split: option.splits)
qed

lemma schema_ref_clear_slots [simp]: "schema_ref (clear_slots env i count s) = schema_ref s"
  by (simp add: schema_ref_def)

lemma visit_all_append:
  "visit_all visit (xs @ ys) arg =
     (case visit_all visit xs arg of
        (vret, arg1) \<Rightarrow> if vret \<noteq> 0 then (vret, arg1) else visit_all visit ys arg1)"
  by (induction xs arbitrary: arg) (auto split: prod.splits)

lemma visit_all_zero:
  "\<forall>ob a. fst (visit ob a) = 0 \<Longrightarrow>
   visit_all visit obs arg = (0, fold (\<lambda>ob a. snd (visit ob a)) obs arg)"
proof (induction obs arbitrary: arg)
  case Nil
  show ?case by simp
next
  case (Cons ob obs)
  from Cons.prems obtain arg1 where "visit ob arg = (0, arg1)"
    by (metis fst_conv surj_pair)
  with Cons.IH[OF Cons.prems, of arg1] show ?case
    by simp
qed

lemma traverse_slots_visit_all:
  "traverse_slots i count s visit arg = visit_all visit (List.map_filter (slots s) [i..<count]) arg"
proof (induction i count s visit arg rule: traverse_slots.induct)
  case (1 i count s visit arg)
  show ?case
  proof (cases "i < count")
    case False
    then show ?thesis
      by (subst traverse_slots.simps) (simp add: List.map_filter_simps)
  next
    case True
    have upt: "[i..<count] = i # [i + 1..<count]"
      using True by (simp add: upt_conv_Cons)
    show ?thesis
    proof (cases "slots s i")
      case None
      then have v: "Py_VISIT (slots s i) visit arg = (0, arg)"
        by (simp add: Py_VISIT_def)
      with "1.IH"[OF True v[symmetric]] True None show ?thesis
        by (subst traverse_slots.simps) (simp add: upt List.map_filter_simps)
    next
      case (Some ob)
      obtain vret arg1 where v: "Py_VISIT (slots s i) visit arg = (vret, arg1)"
        by (cases "Py_VISIT (slots s i) visit arg")
      then have w: "visit ob arg = (vret, arg1)"
        using Some by (simp add: Py_VISIT_def)
      show ?thesis
      proof (cases "vret = 0")
        case True
        with "1.IH"[OF \<open>i < count\<close> v[symmetric]] \<open>i < count\<close> Some v w show ?thesis
          by (subst traverse_slots.simps) (simp add: upt List.map_filter_simps)
      next
        case False
        with \<open>i < count\<close> Some v w show ?thesis
          by (subst traverse_slots.simps) (simp add: upt List.map_filter_simps)
      qed
    qed
  qed
qed

lemma init_items_append:
  "init_items env self (ps @ qs) s =
     (case init_items env self ps s of
        (Inl e, s1) \<Rightarrow> (Inl e, s1)
      | (Inr u, s1) \<Rightarrow> init_items env self qs s1)"
  by (induction ps arbitrary: s) (auto split: prod.splits sum.splits)

section \<open>Evaluating the examples\<close>

lemma ex_env_sel:
  "NullObject ex_env = 1"
  "ClassMap_MemberCount ex_env p = (case p of None \<Rightarrow> 0 | Some c \<Rightarrow> 7)"
  "ClassMap_LookupMember ex_env = ex_lookup"
  "PyTuple_New ex_env n hp = True"
  "PyObject_GenericGetAttr ex_env self name hp = (Inl (Raised 1), hp)"
  "PyObject_GenericSetAttr ex_env self name v hp = (Inl (Raised 1), hp)"
  "tp_dealloc ex_env = (\<lambda>ob hp. hp)"
  by (simp_all add: ex_env_def)

lemma ex_settled_env_sel:
  "NullObject ex_settled_env = 1"
  "ClassMap_LookupMember ex_settled_env = ex_settled_lookup"
  "PyTuple_New ex_settled_env n hp = True"
  "tp_dealloc ex_settled_env = (\<lambda>ob hp. hp)"
  by (simp_all add: ex_settled_env_def)

lemmas ex_eval =
  ex_defs ex_env_sel ex_settled_env_sel Py_None_def
  Atom_getattro_def Atom_setattro_def do_default_def do_validate_def call_handler_def
  PyObject_Call_def run_foreign_def reenter_def heap.truncate_def xnewref_def
  Py_DECREF_quiet_sel[OF ex_env_sel(7)] fold_Py_DECREF_quiet_sel[OF ex_env_sel(7)]
  Py_DECREF_quiet_sel[OF ex_settled_env_sel(4)] fold_Py_DECREF_quiet_sel[OF ex_settled_env_sel(4)]

lemma ex_refill_env_sel:
  "NullObject ex_refill_env = 1"
  "ClassMap_MemberCount ex_refill_env p = 7"
  "ClassMap_LookupMember ex_refill_env = ex_lookup"
  "PyTuple_New ex_refill_env n hp = True"
  "tp_dealloc ex_refill_env ob hp =
     (if ob = 6 then snd (reenter (Some 100) (Atom_setattro ex_env 7 20 (Some 9)) hp)
      else if ob = 8 then snd (reenter (Some 100) (Atom_setattro ex_env 7 26 (Some 9)) hp)
      else hp)"
  by (simp_all add: ex_refill_env_def ex_env_def)

text \<open>
  The write the finalisers of \<open>ex_refill_env\<close> make is the write entry of the instance in
  that environment.
\<close>

lemma ex_refill_setattro: "Atom_setattro ex_refill_env = Atom_setattro ex_env"
  by (intro ext) (simp add: Atom_setattro_def ex_refill_env_def cong: option.case_cong)

lemmas ex_refill_eval =
  ex_defs ex_env_sel ex_refill_env_sel Py_None_def
  Atom_getattro_def Atom_setattro_def do_default_def do_validate_def call_handler_def
  PyObject_Call_def run_foreign_def reenter_def heap.truncate_def xnewref_def newref_def
  Py_INCREF_def Py_DECREF_alive Py_DECREF_dead Py_CLEAR_slot_def Py_CLEAR_class_map_def

lemma ex_filled_owned:
  "present_slots (ClassMap_MemberCount ex_env (class_map ex_filled)) ex_filled = [5, 6]"
  "schema_ref ex_filled = [100]"
  by (simp_all add: ex_defs ex_env_sel present_slots_def schema_ref_def upt_conv_Cons
      List.map_filter_simps)

text \<open>
  The read that \<open>ex_rereads\<close> makes on its first run is the read of the member named 25
  through \<open>ex_env\<close>, whose schema holds \<open>ex_rereads\<close> itself as that member's default
  handler.
\<close>

lemma ex_rereads_reenters:
  assumes "foreign hp = 0"
  shows "ex_rereads [15, 7, 25] hp =
     reenter (Some 100) (Atom_getattro ex_env 7 25) (hp\<lparr>foreign := 1\<rparr>)"
proof -
  have dec: "Py_DECREF ex_settled_env = Py_DECREF ex_env"
    by (intro ext) (simp add: Py_DECREF_quiet ex_settled_env_sel ex_env_sel)
  have val: "do_validate env m a n old v t = (Inr v, newref v t)"
    if "validate_handler m = None" "post_validate_handler m = None" for env m a n old v t
    using that by (simp add: do_validate_def)
  have nul: "NullObject ex_settled_env = NullObject ex_env"
    by (simp add: ex_settled_env_sel ex_env_sel)
  have call: "call_handler ex_settled_env Default_h (ex_returns 41) args res t =
      call_handler ex_env Default_h ex_rereads args res t" if "foreign t = 1" for args res t
    using that
    by (simp add: call_handler_def PyObject_Call_def run_foreign_def dec ex_rereads_def)
       (simp add: ex_settled_env_sel ex_env_sel)
  have dd: "do_default ex_settled_env ex_settled 7 25 t = do_default ex_env ex_rereading 7 25 t"
    if "foreign t = 1" for t
    using that
    by (simp add: do_default_def ex_settled_def ex_rereading_def call val nul dec
        cong: prod.case_cong sum.case_cong)
  have lk: "ClassMap_LookupMember ex_settled_env (Some 100) 25 = Some (ex_settled, 5)"
    "ClassMap_LookupMember ex_env (Some 100) 25 = Some (ex_rereading, 5)"
    by (simp_all add: ex_settled_env_sel ex_env_sel ex_settled_lookup_def ex_lookup_def)
  have "Atom_getattro ex_settled_env 7 25 t = Atom_getattro ex_env 7 25 t"
    if "foreign t = 1" "class_map t = Some 100" for t
    using that lk
    by (simp add: Atom_getattro_def dd cong: option.case_cong)
  then show ?thesis
    using assms by (simp add: ex_rereads_def reenter_def)
qed

section \<open>The collector entries as a whole\<close>

lemma Atom_traverse_visit_all:
  "Atom_traverse env s visit arg =
     (visit_all visit
        (present_slots (ClassMap_MemberCount env (class_map s)) s @ schema_ref s) arg, s)"
  by (auto simp: Atom_traverse_def traverse_slots_visit_all present_slots_def visit_all_append
      schema_ref_def Py_VISIT_def split: prod.splits option.splits)

lemma Atom_clear_fold:
  "Atom_clear env s =
     Py_CLEAR_class_map env
       (fold (Py_CLEAR_slot env) [0..<ClassMap_MemberCount env (class_map s)] s)"
  by (simp add: Atom_clear_def clear_slots_fold)

lemma Atom_clear_quiet:
  assumes "\<forall>ob hp. slots (tp_dealloc env ob hp) = slots hp"
  shows "slots (Atom_clear env s) j =
           (if j < ClassMap_MemberCount env (class_map s) then None else slots s j)"
    and "released (Atom_clear env s) =
           released s @ present_slots (ClassMap_MemberCount env (class_map s)) s @ schema_ref s"
  using clear_slots_quiet[OF assms, of 0 "ClassMap_MemberCount env (class_map s)" s j]
  by (simp_all add: Atom_clear_def Py_CLEAR_class_map_slots[OF assms] present_slots_def)

text \<open>
  The clear of \<open>ex_filled\<close> in \<open>ex_refill_env\<close>: the loop empties slot 0 and releases 5,
  empties slot 1 and releases 6, whose finaliser assigns 9 to slot 0, which the loop has
  left behind; the schema reference goes last.
\<close>

lemma ex_refilled:
  "slots (Atom_clear ex_refill_env ex_filled) = (\<lambda>i. None)(0 := Some 9)"
  "class_map (Atom_clear ex_refill_env ex_filled) = None"
  "released (Atom_clear ex_refill_env ex_filled) = [5, 6, 100]"
  by (simp_all add: Atom_clear_fold ex_refill_eval upt_conv_Cons fun_eq_iff)

section \<open>The properties\<close>




text \<open>
  C2. Writing a value to a schema-backed member always succeeds and leaves exactly that
  value in the slot; the read that follows returns it; neither the write nor the read
  invokes a handler (the logs of handler invocations are as before the write), whatever
  validate, post-validate or post-setattr handlers the member carries.
\<close>

theorem C2_write_then_read:
  assumes "ClassMap_LookupMember env (class_map s) name = Some (member, index)"
  shows "fst (Atom_setattro env self name (Some v) s) = Inr () \<and>
         slots (snd (Atom_setattro env self name (Some v) s)) index = Some v \<and>
         calls (snd (Atom_setattro env self name (Some v) s)) = calls s \<and>
         fst (Atom_getattro env self name (snd (Atom_setattro env self name (Some v) s))) = Inr v \<and>
         calls (snd (Atom_getattro env self name (snd (Atom_setattro env self name (Some v) s)))) = calls s \<and>
         invoked (snd (Atom_setattro env self name (Some v) s)) = invoked s \<and>
         invoked (snd (Atom_getattro env self name (snd (Atom_setattro env self name (Some v) s)))) =
           invoked s"
  using assms by (simp add: Atom_setattro_def Atom_getattro_def)

theorem C2_write_then_read_witness:
  "ClassMap_LookupMember ex_env (class_map ex_atom) 20 = Some (ex_full, 0) \<and>
   fst (Atom_setattro ex_env 7 20 (Some 9) ex_atom) = Inr () \<and>
   slots (snd (Atom_setattro ex_env 7 20 (Some 9) ex_atom)) 0 = Some 9 \<and>
   calls (snd (Atom_setattro ex_env 7 20 (Some 9) ex_atom)) = [] \<and>
   fst (Atom_getattro ex_env 7 20 (snd (Atom_setattro ex_env 7 20 (Some 9) ex_atom))) = Inr 9 \<and>
   calls (snd (Atom_getattro ex_env 7 20 (snd (Atom_setattro ex_env 7 20 (Some 9) ex_atom)))) = [] \<and>
   invoked (snd (Atom_getattro ex_env 7 20 (snd (Atom_setattro ex_env 7 20 (Some 9) ex_atom)))) = []"
proof -
  have h: "ClassMap_LookupMember ex_env (class_map ex_atom) 20 = Some (ex_full, 0)"
    by (simp add: ex_defs ex_env_sel)
  have "calls ex_atom = []" "invoked ex_atom = []" by (simp_all add: ex_defs)
  with h C2_write_then_read[OF h, of 7 9] show ?thesis by simp
qed

text \<open>
  C3. A successful first read of a member is the run of three stages in this order:
  the default stage yields the candidate \<open>cand\<close> (the default handler's answer, or
  \<open>Py_None\<close> without one), the validate handler is called on \<open>cand\<close> and answers \<open>r1\<close>,
  the post-validate handler is called on \<open>r1\<close> and answers \<open>v\<close>, and \<open>v\<close> is what the slot
  holds afterwards. The log shows the calls in that order with those candidates. A
  stage whose handler is absent makes no call and hands its input on unchanged
  (\<open>r1 = cand\<close>, \<open>v = r1\<close>).
\<close>

theorem C3_validate_then_post_validate:
  assumes lookup: "ClassMap_LookupMember env (class_map s) name = Some (member, index)"
      and absent: "slots s index = None"
      and first: "Atom_getattro env self name s = (Inr v, s1)"
  shows "slots s1 index = Some v \<and>
    (\<exists>cand r1.
      (case default_handler member of
         None \<Rightarrow> cand = Py_None
       | Some hdf \<Rightarrow> \<exists>hp. fst (hdf [ob_member member, self, name] hp) = Inr cand) \<and>
      (case validate_handler member of
         None \<Rightarrow> r1 = cand
       | Some hv \<Rightarrow>
           \<exists>hp. fst (hv [ob_member member, self, name, NullObject env, cand] hp) = Inr r1) \<and>
      (case post_validate_handler member of
         None \<Rightarrow> v = r1
       | Some hpv \<Rightarrow>
           \<exists>hp. fst (hpv [ob_member member, self, name, NullObject env, r1] hp) = Inr v) \<and>
      calls s1 = calls s @
        (case default_handler member of
           None \<Rightarrow> []
         | Some hdf \<Rightarrow> [(Default_h, [ob_member member, self, name])]) @
        (case validate_handler member of
           None \<Rightarrow> []
         | Some hv \<Rightarrow> [(Validate_h, [ob_member member, self, name, NullObject env, cand])]) @
        (case post_validate_handler member of
           None \<Rightarrow> []
         | Some hpv \<Rightarrow>
             [(Post_validate_h, [ob_member member, self, name, NullObject env, r1])]))"
proof -
  from first obtain s2 where d: "do_default env member self name s = (Inr v, s2)"
    and s1: "s1 = newref v (s2\<lparr>slots := (slots s2)(index := Some v)\<rparr>)"
    by (auto simp: Atom_getattro_absent[OF lookup absent] split: prod.splits sum.splits)
  have "calls s1 = calls s2" "slots s1 index = Some v"
    using s1 by simp_all
  with do_default_success[OF d] show ?thesis
    by simp
qed

theorem C3_validate_then_post_validate_witness:
  "slots (snd (Atom_getattro ex_env 7 20 ex_atom)) 0 = Some 43 \<and>
   calls (snd (Atom_getattro ex_env 7 20 ex_atom)) =
     [(Default_h, [10, 7, 20]), (Validate_h, [10, 7, 20, 1, 41]),
      (Post_validate_h, [10, 7, 20, 1, 42])] \<and>
   fst (Atom_getattro ex_env 7 21 ex_atom) = Inr Py_None \<and>
   slots (snd (Atom_getattro ex_env 7 21 ex_atom)) 1 = Some Py_None \<and>
   calls (snd (Atom_getattro ex_env 7 21 ex_atom)) = []"
proof -
  have h1: "ClassMap_LookupMember ex_env (class_map ex_atom) 20 = Some (ex_full, 0)"
    by (simp add: ex_defs ex_env_sel)
  have h2: "slots ex_atom 0 = None"
    by (simp add: ex_defs ex_env_sel)
  have "fst (Atom_getattro ex_env 7 20 ex_atom) = Inr 43"
    by (simp add: ex_eval)
  then have h3: "Atom_getattro ex_env 7 20 ex_atom = (Inr 43, snd (Atom_getattro ex_env 7 20 ex_atom))"
    by (simp add: prod_eq_iff)
  have e: "default_handler ex_full = Some (ex_returns 41)"
    "validate_handler ex_full = Some (ex_returns 42)"
    "post_validate_handler ex_full = Some (ex_returns 43)"
    "ob_member ex_full = 10" "NullObject ex_env = 1" "calls ex_atom = []"
    by (simp_all add: ex_full_def ex_env_sel ex_atom_def)
  have full: "slots (snd (Atom_getattro ex_env 7 20 ex_atom)) 0 = Some 43 \<and>
     calls (snd (Atom_getattro ex_env 7 20 ex_atom)) =
       [(Default_h, [10, 7, 20]), (Validate_h, [10, 7, 20, 1, 41]),
        (Post_validate_h, [10, 7, 20, 1, 42])]"
    using C3_validate_then_post_validate[OF h1 h2 h3]
    unfolding e by (auto simp: ex_returns_def)
  have p1: "ClassMap_LookupMember ex_env (class_map ex_atom) 21 = Some (ex_plain, 1)"
    by (simp add: ex_defs ex_env_sel)
  have p2: "slots ex_atom 1 = None"
    by (simp add: ex_defs ex_env_sel)
  have f: "fst (Atom_getattro ex_env 7 21 ex_atom) = Inr Py_None"
    by (simp add: ex_eval)
  then have p3: "Atom_getattro ex_env 7 21 ex_atom =
      (Inr Py_None, snd (Atom_getattro ex_env 7 21 ex_atom))"
    by (simp add: prod_eq_iff)
  have q: "default_handler ex_plain = None" "validate_handler ex_plain = None"
    "post_validate_handler ex_plain = None"
    by (simp_all add: ex_plain_def)
  have plain: "slots (snd (Atom_getattro ex_env 7 21 ex_atom)) 1 = Some Py_None \<and>
     calls (snd (Atom_getattro ex_env 7 21 ex_atom)) = []"
    using C3_validate_then_post_validate[OF p1 p2 p3] e(6)
    unfolding q by simp
  from full f plain show ?thesis
    by simp
qed




text \<open>
  C5. With a non-empty positional tuple, initialization fails with the usage error and
  leaves the instance as it was. With none, no keywords or an empty mapping succeed and
  change nothing; and when the pairs \<open>ps\<close> have been applied successfully, reaching \<open>s1\<close>,
  the next pair \<open>(key, v)\<close> is written by \<open>Atom_setattro\<close> in \<open>s1\<close>: if that write fails,
  initialization returns its error and the state the failed write left (the pairs of \<open>ps\<close>
  stay applied, the pairs of \<open>rest\<close> are never applied); if it succeeds, initialization
  goes on with \<open>rest\<close>.
\<close>

theorem C5_init_applies_pairs_in_order:
  "(args \<noteq> [] \<longrightarrow>
      Atom_init env self args kwargs s =
        (Inl (TypeError ''__init__() takes no positional arguments''), s)) \<and>
   Atom_init env self [] None s = (Inr (), s) \<and>
   Atom_init env self [] (Some []) s = (Inr (), s) \<and>
   (Atom_init env self [] (Some ps) s = (Inr (), s1) \<longrightarrow>
      Atom_init env self [] (Some (ps @ (key, v) # rest)) s =
        (case Atom_setattro env self key (Some v) s1 of
           (Inl e, s2) \<Rightarrow> (Inl e, s2)
         | (Inr u, s2) \<Rightarrow> Atom_init env self [] (Some rest) s2))"
  by (auto simp: Atom_init_def init_items_append PyObject_SetAttr_def split: prod.splits sum.splits)

theorem C5_init_applies_pairs_in_order_witness:
  "Atom_init ex_env 7 [3] (Some [(20, 9)]) ex_atom =
     (Inl (TypeError ''__init__() takes no positional arguments''), ex_atom) \<and>
   fst (Atom_init ex_env 7 [] (Some [(20, 9), (99, 8), (21, 7)]) ex_atom) = Inl (Raised 1) \<and>
   slots (snd (Atom_init ex_env 7 [] (Some [(20, 9), (99, 8), (21, 7)]) ex_atom)) 0 = Some 9 \<and>
   slots (snd (Atom_init ex_env 7 [] (Some [(20, 9), (99, 8), (21, 7)]) ex_atom)) 1 = None"
proof -
  let ?s1 = "snd (Atom_init ex_env 7 [] (Some [(20, 9)]) ex_atom)"
  have "fst (Atom_init ex_env 7 [] (Some [(20, 9)]) ex_atom) = Inr ()"
    by (simp add: Atom_init_def PyObject_SetAttr_def ex_eval)
  then have h: "Atom_init ex_env 7 [] (Some [(20, 9)]) ex_atom = (Inr (), ?s1)"
    by (simp add: prod_eq_iff)
  have s1: "slots ?s1 0 = Some 9" "slots ?s1 1 = None" "class_map ?s1 = Some 100"
    by (simp_all add: Atom_init_def PyObject_SetAttr_def ex_eval)
  have w: "fst (Atom_setattro ex_env 7 99 (Some 8) ?s1) = Inl (Raised 1)"
    "slots (snd (Atom_setattro ex_env 7 99 (Some 8) ?s1)) = slots ?s1"
    by (simp_all add: Atom_setattro_def run_foreign_def heap.truncate_def s1 ex_env_sel ex_lookup_def)
  have n: "([3] :: ref list) \<noteq> []"
    by simp
  from C5_init_applies_pairs_in_order[of "[3]" ex_env 7 "Some [(20, 9)]" ex_atom "[(20, 9)]" ?s1 99 8 "[(21, 7)]"]
    n h w s1
  show ?thesis
    by (auto split: prod.splits sum.splits)
qed

text \<open>
  C6. The write over a present slot, evaluated: slot 0 of \<open>ex_filled\<close> holds the object 5,
  and writing the object 9 to that member replaces the pointer while the reference count
  of 5 stays what it was and nothing is released. The slot owned a reference to 5, and
  that reference is now counted but held by nobody. \<^verbatim>\<open>Py_CLEAR\<close> on the same slot, the
  way \<^verbatim>\<open>Atom_clear\<close> empties it, does release 5.
\<close>

theorem C6_overwrite_keeps_old_reference:
  "slots ex_filled 0 = Some 5 \<and>
   slots (snd (Atom_setattro ex_env 7 20 (Some 9) ex_filled)) 0 = Some 9 \<and>
   ob_refcnt (snd (Atom_setattro ex_env 7 20 (Some 9) ex_filled)) 5 = ob_refcnt ex_filled 5 \<and>
   released (snd (Atom_setattro ex_env 7 20 (Some 9) ex_filled)) = [] \<and>
   ob_refcnt (Py_CLEAR_slot ex_env 0 ex_filled) 5 = ob_refcnt ex_filled 5 - 1 \<and>
   released (Py_CLEAR_slot ex_env 0 ex_filled) = [5]"
  by (simp add: ex_eval Py_CLEAR_slot_def)







text \<open>
  C9, amended. Every validate and post-validate call of a default production carries
  \<open>NullObject\<close> as its fourth argument, the old value. For a member without default
  handler the first call, if there is one, is a validate stage call with \<open>Py_None\<close> as
  candidate, and without any handler default production answers \<open>Py_None\<close> itself.
\<close>

theorem C9_default_candidate_and_old_value:
  assumes "do_default env member atom name s = (r, s1)"
  shows "\<exists>cs. calls s1 = calls s @ cs \<and>
    (\<forall>(k, args) \<in> set cs. k \<noteq> Default_h \<longrightarrow> length args = 5 \<and> args ! 3 = NullObject env) \<and>
    (default_handler member = None \<longrightarrow>
       (\<forall>(k, args) \<in> set (take 1 cs). k \<noteq> Default_h \<and> args ! 4 = Py_None) \<and>
       (validate_handler member = None \<and> post_validate_handler member = None \<longrightarrow>
          r = Inr Py_None))"
proof (cases "default_handler member")
  case None
  with assms obtain s2 where v: "do_validate env member atom name (NullObject env) Py_None (newref Py_None s) = (r, s2)"
     and s1: "s1 = Py_DECREF env Py_None s2"
    by (auto simp: do_default_def split: prod.splits)
  from do_validate_calls[OF v] obtain cs where
    cs: "calls s2 = calls s @ cs"
        "\<forall>(k, args) \<in> set cs. k \<noteq> Default_h \<and> length args = 5 \<and> args ! 3 = NullObject env"
        "\<forall>(k, args) \<in> set (take 1 cs). args ! 4 = Py_None"
        "validate_handler member = None \<and> post_validate_handler member = None \<longrightarrow> r = Inr Py_None"
    by auto
  have "\<forall>(k, args) \<in> set (take 1 cs). k \<noteq> Default_h \<and> args ! 4 = Py_None"
    using cs(2,3) by (cases cs) auto
  with cs s1 show ?thesis
    by (intro exI[of _ cs]) auto
next
  case (Some hdf)
  show ?thesis
  proof (cases "call_handler env Default_h hdf [ob_member member, atom, name] Py_None (newref Py_None s)")
    case (Pair r0 s2)
    note c = call_handler_calls[OF Pair]
    show ?thesis
    proof (cases r0)
      case (Inl e)
      with assms Some Pair have "s1 = s2" by (simp add: do_default_def)
      with c Some show ?thesis by auto
    next
      case (Inr cand)
      with assms Some Pair obtain s3 where
        v: "do_validate env member atom name (NullObject env) cand s2 = (r, s3)" and s1: "s1 = Py_DECREF env cand s3"
        by (auto simp: do_default_def split: prod.splits)
      from do_validate_calls[OF v] obtain cs where
        cs: "calls s3 = calls s2 @ cs" "\<forall>(k, args) \<in> set cs. k \<noteq> Default_h \<and> length args = 5 \<and> args ! 3 = NullObject env"
        by blast
      from c obtain ds where ds: "calls s2 = calls s @ ds" "\<forall>(k, args) \<in> set ds. k = Default_h"
        by (auto split: if_splits)
      from cs ds s1 Some show ?thesis
        by (intro exI[of _ "ds @ cs"]) auto
    qed
  qed
qed

theorem C9_default_candidate_and_old_value_witness:
  "calls (snd (do_default ex_env ex_checked 7 24 ex_atom)) = [(Validate_h, [14, 7, 24, 1, Py_None])] \<and>
   list_all (\<lambda>(k, args). length args = 5 \<and> args ! 3 = NullObject ex_env)
     (calls (snd (do_default ex_env ex_checked 7 24 ex_atom))) \<and>
   list_all (\<lambda>(k, args). args ! 4 = Py_None)
     (take 1 (calls (snd (do_default ex_env ex_checked 7 24 ex_atom))))"
proof -
  have "fst (do_default ex_env ex_checked 7 24 ex_atom) = Inr 42"
    by (simp add: ex_eval)
  then have h: "do_default ex_env ex_checked 7 24 ex_atom =
      (Inr 42, snd (do_default ex_env ex_checked 7 24 ex_atom))"
    by (simp add: prod_eq_iff)
  have c: "calls (snd (do_default ex_env ex_checked 7 24 ex_atom)) = [(Validate_h, [14, 7, 24, 1, Py_None])]"
    "calls ex_atom = []" "NullObject ex_env = 1"
    by (simp_all add: ex_eval)
  from C9_default_candidate_and_old_value[OF h] c show ?thesis
    by simp
qed

text \<open>
  C9 as stated fails wherever \<open>NullObject\<close> is not Python's \<open>None\<close>: the code names two
  objects, \<open>Py_None\<close> for the candidate and \<open>NullObject\<close> for the old value. In \<open>ex_env\<close>
  they are the objects 0 and 1, and the validate handler of \<open>ex_checked\<close> is called with
  old value 1 and candidate 0.
\<close>

theorem C9_placeholders_differ_counterexample:
  "calls (snd (do_default ex_env ex_checked 7 24 ex_atom)) =
     [(Validate_h, [14, 7, 24, NullObject ex_env, Py_None])] \<and>
   NullObject ex_env \<noteq> Py_None"
  by (simp add: ex_eval Py_None_def)

text \<open>
  C10. The write entry called without a value on a schema-backed member always succeeds
  and leaves the slot absent, so the read that follows answers what default production
  answers in that state, and makes the handler calls default production makes.
\<close>

theorem C10_delete_resets_slot:
  assumes lookup: "ClassMap_LookupMember env (class_map s) name = Some (member, index)"
  shows "fst (Atom_setattro env self name None s) = Inr () \<and>
         slots (snd (Atom_setattro env self name None s)) index = None \<and>
         fst (Atom_getattro env self name (snd (Atom_setattro env self name None s))) =
           fst (do_default env member self name (snd (Atom_setattro env self name None s))) \<and>
         calls (snd (Atom_getattro env self name (snd (Atom_setattro env self name None s)))) =
           calls (snd (do_default env member self name (snd (Atom_setattro env self name None s))))"
proof -
  have w: "Atom_setattro env self name None s = (Inr (), s\<lparr>slots := (slots s)(index := None)\<rparr>)"
    using lookup by (simp add: Atom_setattro_def xnewref_def)
  have cm: "ClassMap_LookupMember env (class_map (s\<lparr>slots := (slots s)(index := None)\<rparr>)) name =
      Some (member, index)"
    using lookup by simp
  have slot: "slots (s\<lparr>slots := (slots s)(index := None)\<rparr>) index = None"
    by simp
  show ?thesis
    unfolding w by (simp add: Atom_getattro_absent[OF cm slot] split: prod.splits sum.splits)
qed

theorem C10_delete_resets_slot_witness:
  "slots ex_filled 0 = Some 5 \<and>
   fst (Atom_setattro ex_env 7 20 None ex_filled) = Inr () \<and>
   slots (snd (Atom_setattro ex_env 7 20 None ex_filled)) 0 = None \<and>
   fst (Atom_getattro ex_env 7 20 (snd (Atom_setattro ex_env 7 20 None ex_filled))) = Inr 43 \<and>
   calls (snd (Atom_getattro ex_env 7 20 (snd (Atom_setattro ex_env 7 20 None ex_filled)))) =
     [(Default_h, [10, 7, 20]), (Validate_h, [10, 7, 20, 1, 41]),
      (Post_validate_h, [10, 7, 20, 1, 42])]"
proof -
  have h: "ClassMap_LookupMember ex_env (class_map ex_filled) 20 = Some (ex_full, 0)"
    by (simp add: ex_defs ex_env_sel)
  have e: "slots ex_filled 0 = Some 5"
    "fst (do_default ex_env ex_full 7 20 (snd (Atom_setattro ex_env 7 20 None ex_filled))) = Inr 43"
    "calls (snd (do_default ex_env ex_full 7 20 (snd (Atom_setattro ex_env 7 20 None ex_filled)))) =
     [(Default_h, [10, 7, 20]), (Validate_h, [10, 7, 20, 1, 41]),
      (Post_validate_h, [10, 7, 20, 1, 42])]"
    by (simp_all add: ex_eval)
  from C10_delete_resets_slot[OF h, of 7] e show ?thesis
    by simp
qed

end
